theory Spec2Isabelle
  imports Main "HOL-Library.Sublist"
begin

section \<open>The cppcheck driver script (\<^verbatim>\<open>cppcheck.py\<close>)\<close>

text \<open>
  The script reads a build directory from the command line, loads
  \<^verbatim>\<open>compile_commands.json\<close> from it, drops the entries that are of no
  interest to the analysis, writes the remaining ones to
  \<^verbatim>\<open>compile_commands_cppcheck.json\<close> and runs \<^verbatim>\<open>cppcheck\<close> on that file.
  Everything the script asks of its host (the file system, the search path, the
  decoder and encoder of JSON, the processor count, the child process) is a field
  of a record \<open>host\<close>; everything it does to the host is an event of a trace.
\<close>

subsection \<open>Values and exceptions\<close>

text \<open>
  What \<^verbatim>\<open>json.load\<close> returns: \<^verbatim>\<open>None\<close>, a \<^verbatim>\<open>bool\<close>, a number, a
  \<^verbatim>\<open>str\<close>, a \<^verbatim>\<open>list\<close> or a \<^verbatim>\<open>dict\<close> with \<^verbatim>\<open>str\<close> keys. A \<^verbatim>\<open>dict\<close>
  keeps the order of insertion, so it is an association list; its keys are
  distinct, and \<open>map_of\<close> reads the value of a key. The script never looks
  inside a number (an \<^verbatim>\<open>int\<close> or a \<^verbatim>\<open>float\<close>), so the type of numbers is
  the parameter \<open>'n\<close>.
\<close>

datatype 'n json =
    JNull
  | JBool bool
  | JNum 'n
  | JStr string
  | JArr "'n json list"
  | JObj "(string \<times> 'n json) list"

text \<open>The exceptions that can leave a line of the script.\<close>

datatype pyerr =
    IndexError
  | TypeError
  | KeyError
  | ValueError
  | OSError
  | NotImplementedError
  | CalledProcessError int

definition bindE :: "'e + 'a \<Rightarrow> ('a \<Rightarrow> 'e + 'b) \<Rightarrow> 'e + 'b" where
  "bindE m f = (case m of Inl e \<Rightarrow> Inl e | Inr x \<Rightarrow> f x)"

subsection \<open>The operators of Python the filter uses\<close>

text \<open>
  \<^verbatim>\<open>sub in s\<close> on two strings: \<open>sub\<close> occurs in \<open>s\<close> as a contiguous run of
  characters, compared character by character.
\<close>

fun str_in :: "string \<Rightarrow> string \<Rightarrow> bool" where
  "str_in sub [] = (sub = [])"
| "str_in sub (c # cs) = (prefix sub (c # cs) \<or> str_in sub cs)"

text \<open>
  \<^verbatim>\<open>s in v\<close> for a string \<open>s\<close>: containment in a string, membership in a
  list (an element equal to the string \<open>s\<close>), a key of a dictionary;
  \<^verbatim>\<open>TypeError\<close> on \<^verbatim>\<open>None\<close>, a \<^verbatim>\<open>bool\<close> or a number, which are not
  iterable.
\<close>

fun py_in :: "string \<Rightarrow> 'n json \<Rightarrow> pyerr + bool" where
  "py_in s (JStr t) = Inr (str_in s t)"
| "py_in s (JArr vs) = Inr (JStr s \<in> set vs)"
| "py_in s (JObj kvs) = Inr (map_of kvs s \<noteq> None)"
| "py_in s JNull = Inl TypeError"
| "py_in s (JBool b) = Inl TypeError"
| "py_in s (JNum n) = Inl TypeError"

text \<open>
  \<^verbatim>\<open>v[k]\<close> for a string \<open>k\<close>: the value of a dictionary at \<open>k\<close>
  (\<^verbatim>\<open>KeyError\<close> when there is none), \<^verbatim>\<open>TypeError\<close> on everything else (a
  list and a string take integer indices only).
\<close>

fun py_getitem :: "'n json \<Rightarrow> string \<Rightarrow> pyerr + 'n json" where
  "py_getitem (JObj kvs) k = (case map_of kvs k of None \<Rightarrow> Inl KeyError | Some v \<Rightarrow> Inr v)"
| "py_getitem v k = Inl TypeError"

text \<open>
  \<^verbatim>\<open>for obj in v\<close>: the elements of a list, the keys of a dictionary, the
  characters of a string (each a string of length one); \<^verbatim>\<open>TypeError\<close> on the
  rest.
\<close>

fun py_iter :: "'n json \<Rightarrow> pyerr + 'n json list" where
  "py_iter (JArr vs) = Inr vs"
| "py_iter (JObj kvs) = Inr (map (\<lambda>kv. JStr (fst kv)) kvs)"
| "py_iter (JStr s) = Inr (map (\<lambda>c. JStr [c]) s)"
| "py_iter v = Inl TypeError"

subsection \<open>The filter\<close>

text \<open>
  \<^verbatim>\<open>is_valid_entry\<close> (lines 27 to 41). \<open>key\<close> starts as \<^verbatim>\<open>None\<close>, which
  is \<open>JNull\<close>; the chain of \<^verbatim>\<open>and\<close> stops at the first operand that is false.
\<close>

definition is_valid_entry :: "'n json \<Rightarrow> pyerr + bool" where
  "is_valid_entry obj =
     bindE (py_in ''output'' obj) (\<lambda>has_output.
     bindE (if has_output then py_getitem obj ''output''
            else bindE (py_in ''file'' obj) (\<lambda>has_file.
                 if has_file then py_getitem obj ''file'' else Inr JNull)) (\<lambda>key.
     if key = JNull then Inr True
     else bindE (py_in ''_deps'' key) (\<lambda>deps.
          if deps then Inr False
          else bindE (py_in ''cerlibTests.dir'' key) (\<lambda>tests.
          if tests then Inr False
          else bindE (py_in ''embedded_files'' key) (\<lambda>embedded.
          if embedded then Inr False
          else bindE (py_in ''stb.c'' key) (\<lambda>stb. Inr (\<not> stb)))))))"

text \<open>
  The comprehension of line 44 over the elements \<open>objs\<close> of the document, from
  left to right: the first exception of \<^verbatim>\<open>is_valid_entry\<close> ends it.
\<close>

fun filter_entries :: "'n json list \<Rightarrow> pyerr + 'n json list" where
  "filter_entries [] = Inr []"
| "filter_entries (obj # objs) =
     bindE (is_valid_entry obj) (\<lambda>keep.
     bindE (filter_entries objs) (\<lambda>kept.
     Inr (if keep then obj # kept else kept)))"

definition filter_doc :: "'n json \<Rightarrow> pyerr + 'n json" where
  "filter_doc json_doc =
     bindE (py_iter json_doc) (\<lambda>objs.
     bindE (filter_entries objs) (\<lambda>kept. Inr (JArr kept)))"

subsection \<open>The host and the trace\<close>

text \<open>
  \<^verbatim>\<open>os.path.join\<close> of two components, as \<^verbatim>\<open>posixpath\<close> has it: an
  absolute second component replaces the first, and a separator is put between
  the two unless the first is empty or ends with one.
\<close>

definition path_join :: "string \<Rightarrow> string \<Rightarrow> string" where
  "path_join a b =
     (if prefix ''/'' b then b
      else if a = [] \<or> last a = CHR ''/'' then a @ b
      else a @ ''/'' @ b)"

text \<open>\<^verbatim>\<open>str\<close> of a count: its decimal digits, without leading zeros.\<close>

definition digit_char :: "nat \<Rightarrow> char" where
  "digit_char d = ''0123456789'' ! d"

fun str_nat :: "nat \<Rightarrow> string" where
  "str_nat n = (if n < 10 then [digit_char n] else str_nat (n div 10) @ [digit_char (n mod 10)])"

declare str_nat.simps [simp del]

text \<open>
  What the script asks of its host. \<open>path_exists\<close> is \<^verbatim>\<open>os.path.exists\<close>,
  \<open>which\<close> is \<^verbatim>\<open>shutil.which\<close>, \<open>json_load p\<close> is \<^verbatim>\<open>open(p)\<close> followed
  by \<^verbatim>\<open>json.load\<close>, \<open>json_dumps v i\<close> is \<^verbatim>\<open>json.dumps(v, indent=i)\<close>,
  \<open>file_write p s\<close> is \<^verbatim>\<open>open(p, "w")\<close> followed by \<^verbatim>\<open>write(s)\<close>,
  \<open>cpu_count\<close> is \<^verbatim>\<open>multiprocessing.cpu_count()\<close>, and \<open>child_exit argv\<close> is
  the exit status of the child process started with the argument vector
  \<open>argv\<close>, or the exception of starting it. Each of them may raise, except
  the first two and the encoder.

  The standard streams belong to the host too. \<open>print_line s\<close> is
  \<^verbatim>\<open>print\<close> of the line \<open>s\<close>: it raises when the stream writes through and
  the write fails, and returns when the line was written or only put into the
  buffer of the stream. When the interpreter ends it flushes both streams:
  \<open>flush_stdout_ok\<close> and \<open>flush_stderr_ok\<close> say whether what the script has
  sent to standard output and to standard error can be flushed then.
\<close>

record 'n host =
  path_exists :: "string \<Rightarrow> bool"
  which :: "string \<Rightarrow> string option"
  json_load :: "string \<Rightarrow> pyerr + 'n json"
  json_dumps :: "'n json \<Rightarrow> nat \<Rightarrow> string"
  file_write :: "string \<Rightarrow> string \<Rightarrow> pyerr + unit"
  cpu_count :: "pyerr + nat"
  child_exit :: "string list \<Rightarrow> pyerr + int"
  print_line :: "string \<Rightarrow> pyerr + unit"
  flush_stdout_ok :: bool
  flush_stderr_ok :: bool

text \<open>
  What the script does to its host, in the order it does it: a line printed on
  standard output, the message of \<^verbatim>\<open>sys.exit\<close> on standard error, the
  traceback of an exception nobody caught (on standard error as well), a file
  opened for reading, a file opened for writing with the text written to it, and
  a child process started with an argument vector and the value of
  \<^verbatim>\<open>shell\<close>. Each event is the attempt; what came of it is the answer of the
  host.
\<close>

datatype event =
    Stdout string
  | Stderr string
  | Traceback pyerr
  | OpenRead string
  | WriteFile string string
  | CheckCall "string list" bool

record outcome =
  trace :: "event list"
  status :: int

text \<open>The events that send text to standard output, and to standard error.\<close>

fun is_stdout :: "event \<Rightarrow> bool" where
  "is_stdout (Stdout s) = True"
| "is_stdout e = False"

fun is_stderr :: "event \<Rightarrow> bool" where
  "is_stderr (Stderr s) = True"
| "is_stderr (Traceback e) = True"
| "is_stderr e = False"

text \<open>
  The status the interpreter exits with, from the status \<open>st\<close> the script
  ended with: when it cannot flush a standard stream the script has sent text
  to, the status is 120 instead. A stream that got no text has nothing to
  flush.
\<close>

definition exit_status :: "'n host \<Rightarrow> event list \<Rightarrow> int \<Rightarrow> int" where
  "exit_status h tr st =
     (if (list_ex is_stdout tr \<and> \<not> flush_stdout_ok h)
         \<or> (list_ex is_stderr tr \<and> \<not> flush_stderr_ok h)
      then 120 else st)"

text \<open>
  The three ways the script ends: \<^verbatim>\<open>sys.exit\<close> with a message (written to
  standard error, status 1), an exception nobody caught (its traceback written
  to standard error, status 1), and the end of the script (status 0).
\<close>

definition sys_exit :: "'n host \<Rightarrow> event list \<Rightarrow> string \<Rightarrow> outcome" where
  "sys_exit h tr msg =
     \<lparr>trace = tr @ [Stderr msg], status = exit_status h (tr @ [Stderr msg]) 1\<rparr>"

definition uncaught :: "'n host \<Rightarrow> event list \<Rightarrow> pyerr \<Rightarrow> outcome" where
  "uncaught h tr e =
     \<lparr>trace = tr @ [Traceback e], status = exit_status h (tr @ [Traceback e]) 1\<rparr>"

definition finished :: "'n host \<Rightarrow> event list \<Rightarrow> outcome" where
  "finished h tr = \<lparr>trace = tr, status = exit_status h tr 0\<rparr>"

subsection \<open>The script\<close>

text \<open>
  Lines 51 to 59: the processor count, then \<^verbatim>\<open>subprocess.check_call\<close>, which
  raises \<^verbatim>\<open>CalledProcessError\<close> on an exit status other than 0.
\<close>

definition invoke :: "'n host \<Rightarrow> event list \<Rightarrow> string \<Rightarrow> string \<Rightarrow> outcome" where
  "invoke h tr cppcheck_cmd output_filename =
     (case cpu_count h of
        Inl e \<Rightarrow> uncaught h tr e
      | Inr num_jobs \<Rightarrow>
          let argv = [cppcheck_cmd, ''--project='' @ output_filename, ''--enable=warning'',
                      ''--std=c++20'', ''-j'', str_nat num_jobs];
              tr' = tr @ [CheckCall argv False]
          in (case child_exit h argv of
                Inl e \<Rightarrow> uncaught h tr' e
              | Inr rc \<Rightarrow> if rc \<noteq> 0 then uncaught h tr' (CalledProcessError rc)
                         else finished h tr'))"

text \<open>Lines 46 to 49, and on to the invocation.\<close>

definition persist ::
  "'n host \<Rightarrow> event list \<Rightarrow> string \<Rightarrow> string \<Rightarrow> 'n json \<Rightarrow> outcome" where
  "persist h tr build_dir cppcheck_cmd json_doc =
     (let output_filename = path_join build_dir ''compile_commands_cppcheck.json'';
          text = json_dumps h json_doc 2;
          tr' = tr @ [WriteFile output_filename text]
      in case file_write h output_filename text of
           Inl e \<Rightarrow> uncaught h tr' e
         | Inr u \<Rightarrow> invoke h tr' cppcheck_cmd output_filename)"

text \<open>
  The whole script, from \<^verbatim>\<open>sys.argv\<close>. \<^verbatim>\<open>sys.argv[1]\<close> raises
  \<^verbatim>\<open>IndexError\<close> when no argument was given; \<^verbatim>\<open>not cppcheck_cmd\<close> holds
  of \<^verbatim>\<open>None\<close> and of the empty string; each of the two calls of
  \<^verbatim>\<open>print\<close> (lines 14 and 20) may raise.
\<close>

definition cppcheck_main :: "'n host \<Rightarrow> string list \<Rightarrow> outcome" where
  "cppcheck_main h argv =
     (case argv of
        prog # build_dir # rest \<Rightarrow>
          let compile_commands_json = path_join build_dir ''compile_commands.json'' in
          if \<not> path_exists h compile_commands_json
          then sys_exit h [] (''error: compile_commands.json not found in '' @ build_dir)
          else
            let line1 = ''Performing Cppcheck checks in directory: '' @ build_dir;
                tr1 = [Stdout line1] in
            (case print_line h line1 of
               Inl e \<Rightarrow> uncaught h tr1 e
             | Inr u1 \<Rightarrow>
            (case which h ''cppcheck'' of
               None \<Rightarrow> sys_exit h tr1 ''error: unable to find cppcheck''
             | Some cppcheck_cmd \<Rightarrow>
                 if cppcheck_cmd = [] then sys_exit h tr1 ''error: unable to find cppcheck''
                 else
                   let line2 = ''Found cppcheck: '' @ cppcheck_cmd;
                       tr2 = tr1 @ [Stdout line2] in
                   (case print_line h line2 of
                      Inl e \<Rightarrow> uncaught h tr2 e
                    | Inr u2 \<Rightarrow>
                   let tr3 = tr2 @ [OpenRead compile_commands_json] in
                   (case json_load h compile_commands_json of
                      Inl e \<Rightarrow> uncaught h tr3 e
                    | Inr json_doc \<Rightarrow>
                        (case filter_doc json_doc of
                           Inl e \<Rightarrow> uncaught h tr3 e
                         | Inr filtered \<Rightarrow> persist h tr3 build_dir cppcheck_cmd filtered)))))
      | _ \<Rightarrow> uncaught h [] IndexError)"

subsection \<open>The words of the specification\<close>

text \<open>
  The four literal substrings, and what it is for a key to contain one of them:
  the key is some characters, the substring, and some more characters.
\<close>

definition denylist :: "string list" where
  "denylist = [''_deps'', ''cerlibTests.dir'', ''embedded_files'', ''stb.c'']"

definition denylisted :: "string \<Rightarrow> bool" where
  "denylisted k = (\<exists>d\<in>set denylist. \<exists>before after. k = before @ d @ after)"

text \<open>
  A record of the database: a dictionary whose \<^verbatim>\<open>output\<close> and \<^verbatim>\<open>file\<close>
  fields, where it has them, are strings.
\<close>

definition str_or_absent :: "'n json option \<Rightarrow> bool" where
  "str_or_absent v = (case v of None \<Rightarrow> True | Some (JStr s) \<Rightarrow> True | Some w \<Rightarrow> False)"

fun compile_command :: "'n json \<Rightarrow> bool" where
  "compile_command (JObj kvs) =
     (str_or_absent (map_of kvs ''output'') \<and> str_or_absent (map_of kvs ''file''))"
| "compile_command v = False"

subsection \<open>Reading a trace\<close>

text \<open>The value of a string of decimal digits.\<close>

definition dec_value :: "string \<Rightarrow> nat" where
  "dec_value s = foldl (\<lambda>a c. 10 * a + (of_char c - 48)) 0 s"

text \<open>
  The trace of a run up to the point where the database is opened, with the
  analyzer found at \<open>cmd\<close>.
\<close>

definition found_trace :: "string \<Rightarrow> string \<Rightarrow> event list" where
  "found_trace build_dir cmd =
     [Stdout (''Performing Cppcheck checks in directory: '' @ build_dir),
      Stdout (''Found cppcheck: '' @ cmd),
      OpenRead (path_join build_dir ''compile_commands.json'')]"

text \<open>The events of a trace that write a file, and those that start a child.\<close>

fun is_write :: "event \<Rightarrow> bool" where
  "is_write (WriteFile p s) = True"
| "is_write e = False"

fun is_call :: "event \<Rightarrow> bool" where
  "is_call (CheckCall argv sh) = True"
| "is_call e = False"

subsection \<open>A host to run the script on\<close>

text \<open>
  The encoder of \<^verbatim>\<open>json.dumps\<close> with an indent, for documents whose numbers
  are integers and whose characters are below 256: a separator \<^verbatim>\<open>,\<close> between the
  items and \<^verbatim>\<open>: \<close> after a key, every item of a list or dictionary on a line
  of its own behind \<open>indent\<close> spaces for each level of nesting, strings in double
  quotes with the escapes of \<^verbatim>\<open>ensure_ascii\<close>.
\<close>

definition hex_char :: "nat \<Rightarrow> char" where
  "hex_char d = ''0123456789abcdef'' ! d"

definition escape_char :: "char \<Rightarrow> string" where
  "escape_char c =
     (if c = CHR 0x22 then [CHR 0x5C, CHR 0x22]
      else if c = CHR 0x5C then [CHR 0x5C, CHR 0x5C]
      else if c = CHR 0x08 then [CHR 0x5C, CHR ''b'']
      else if c = CHR 0x0C then [CHR 0x5C, CHR ''f'']
      else if c = CHR 0x0A then [CHR 0x5C, CHR ''n'']
      else if c = CHR 0x0D then [CHR 0x5C, CHR ''r'']
      else if c = CHR 0x09 then [CHR 0x5C, CHR ''t'']
      else if 32 \<le> (of_char c :: nat) \<and> (of_char c :: nat) \<le> 126 then [c]
      else [CHR 0x5C, CHR ''u'', CHR ''0'', CHR ''0'',
            hex_char (of_char c div 16), hex_char (of_char c mod 16)])"

definition encode_str :: "string \<Rightarrow> string" where
  "encode_str s = [CHR 0x22] @ concat (map escape_char s) @ [CHR 0x22]"

definition str_int :: "int \<Rightarrow> string" where
  "str_int i = (if i < 0 then ''-'' @ str_nat (nat (- i)) else str_nat (nat i))"

definition newline_indent :: "nat \<Rightarrow> nat \<Rightarrow> string" where
  "newline_indent indent level = CHR 0x0A # replicate (indent * level) CHR '' ''"

fun join_with :: "string \<Rightarrow> string list \<Rightarrow> string" where
  "join_with sep [] = []"
| "join_with sep [x] = x"
| "join_with sep (x # y # ys) = x @ sep @ join_with sep (y # ys)"

definition bracket :: "string \<Rightarrow> string \<Rightarrow> nat \<Rightarrow> nat \<Rightarrow> string list \<Rightarrow> string" where
  "bracket opening closing indent level items =
     (if items = [] then opening @ closing
      else opening @ newline_indent indent (Suc level)
           @ join_with ('','' @ newline_indent indent (Suc level)) items
           @ newline_indent indent level @ closing)"

primrec encode :: "int json \<Rightarrow> nat \<Rightarrow> nat \<Rightarrow> string" where
  "encode JNull indent level = ''null''"
| "encode (JBool b) indent level = (if b then ''true'' else ''false'')"
| "encode (JNum n) indent level = str_int n"
| "encode (JStr s) indent level = encode_str s"
| "encode (JArr vs) indent level =
     bracket ''['' '']'' indent level (map (\<lambda>enc. enc indent (Suc level)) (map encode vs))"
| "encode (JObj kvs) indent level =
     bracket ''{'' ''}'' indent level
       (map (\<lambda>kv. encode_str (fst kv) @ '': '' @ snd kv indent (Suc level))
            (map (map_prod id encode) kvs))"

definition dumps :: "int json \<Rightarrow> nat \<Rightarrow> string" where
  "dumps v indent = encode v indent 0"

text \<open>
  A database of four entries: one of the project, one of a dependency, one of a
  vendored source file that has no \<^verbatim>\<open>output\<close>, and one that has neither
  \<^verbatim>\<open>output\<close> nor \<^verbatim>\<open>file\<close>.
\<close>

definition demo_entries :: "int json list" where
  "demo_entries =
     [JObj [(''directory'', JStr ''/w/build''), (''file'', JStr ''/w/src/main.cpp''),
            (''output'', JStr ''src/main.cpp.o'')],
      JObj [(''file'', JStr ''/w/build/_deps/x/y.cpp''), (''output'', JStr ''_deps/y.cpp.o'')],
      JObj [(''file'', JStr ''/w/third_party/stb.c'')],
      JObj [(''command'', JStr ''c++ -c a.cpp''), (''line'', JNum 3)]]"

definition demo_kept :: "int json list" where
  "demo_kept =
     [JObj [(''directory'', JStr ''/w/build''), (''file'', JStr ''/w/src/main.cpp''),
            (''output'', JStr ''src/main.cpp.o'')],
      JObj [(''command'', JStr ''c++ -c a.cpp''), (''line'', JNum 3)]]"

text \<open>The text of the entries that are kept, line by line.\<close>

definition quoted :: "string \<Rightarrow> string" where
  "quoted s = CHR 0x22 # s @ [CHR 0x22]"

definition demo_text :: string where
  "demo_text = join_with [CHR 0x0A]
     [''['',
      ''  {'',
      ''    '' @ quoted ''directory'' @ '': '' @ quoted ''/w/build'' @ '','',
      ''    '' @ quoted ''file'' @ '': '' @ quoted ''/w/src/main.cpp'' @ '','',
      ''    '' @ quoted ''output'' @ '': '' @ quoted ''src/main.cpp.o'',
      ''  },'',
      ''  {'',
      ''    '' @ quoted ''command'' @ '': '' @ quoted ''c++ -c a.cpp'' @ '','',
      ''    '' @ quoted ''line'' @ '': 3'',
      ''  }'',
      '']'']"

text \<open>
  A host where the database is at \<^verbatim>\<open>build/compile_commands.json\<close>, the
  analyzer is installed, there are eight processors, every write succeeds, the
  child exits with status 0 and the standard streams take what is sent to them.
\<close>

definition demo_host :: "int host" where
  "demo_host =
     \<lparr>path_exists = (\<lambda>p. p = ''build/compile_commands.json''),
      which = (\<lambda>name. if name = ''cppcheck'' then Some ''/usr/bin/cppcheck'' else None),
      json_load = (\<lambda>p. if p = ''build/compile_commands.json'' then Inr (JArr demo_entries)
                         else Inl OSError),
      json_dumps = dumps,
      file_write = (\<lambda>p s. Inr ()),
      cpu_count = Inr 8,
      child_exit = (\<lambda>argv. Inr 0),
      print_line = (\<lambda>s. Inr ()),
      flush_stdout_ok = True,
      flush_stderr_ok = True\<rparr>"

text \<open>
  The same host without the analyzer, with an analyzer that exits with status 2,
  and with a standard output that buffers what is printed and cannot be flushed
  (a full device).
\<close>

definition no_tool_host :: "int host" where
  "no_tool_host = demo_host\<lparr>which := (\<lambda>name. None)\<rparr>"



section \<open>Properties of the filter\<close>

lemma bindE_Inl [simp]: "bindE (Inl e) f = Inl e"
  by (simp add: bindE_def)

lemma bindE_Inr [simp]: "bindE (Inr x) f = f x"
  by (simp add: bindE_def)

lemma str_in_sublist: "str_in sub s = sublist sub s"
  by (induction s) (simp_all add: sublist_Cons_right)

lemma str_in_iff: "str_in sub s \<longleftrightarrow> (\<exists>before after. s = before @ sub @ after)"
  by (simp add: str_in_sublist sublist_def)

lemma denylisted_code:
  "denylisted k \<longleftrightarrow>
     str_in ''_deps'' k \<or> str_in ''cerlibTests.dir'' k \<or> str_in ''embedded_files'' k \<or> str_in ''stb.c'' k"
  by (simp add: denylisted_def denylist_def str_in_iff)

text \<open>The four tests on a key that is a string.\<close>

lemma deny_chain:
  "bindE (py_in ''_deps'' (JStr k)) (\<lambda>deps.
     if deps then Inr False
     else bindE (py_in ''cerlibTests.dir'' (JStr k)) (\<lambda>tests.
     if tests then Inr False
     else bindE (py_in ''embedded_files'' (JStr k)) (\<lambda>embedded.
     if embedded then Inr False
     else bindE (py_in ''stb.c'' (JStr k)) (\<lambda>stb. Inr (\<not> stb))))) = Inr (\<not> denylisted k)"
  by (simp add: denylisted_code)

text \<open>On a dictionary the key is the \<^verbatim>\<open>output\<close> value, else the \<^verbatim>\<open>file\<close> value.\<close>

lemma is_valid_entry_output:
  "map_of kvs ''output'' = Some key \<Longrightarrow>
   is_valid_entry (JObj kvs) = is_valid_entry (JObj [(''output'', key)])"
  by (simp add: is_valid_entry_def)

lemma entry_str_output:
  "map_of kvs ''output'' = Some (JStr k) \<Longrightarrow> is_valid_entry (JObj kvs) = Inr (\<not> denylisted k)"
  by (simp add: is_valid_entry_def deny_chain del: py_in.simps(1))

lemma entry_str_file:
  "map_of kvs ''output'' = None \<Longrightarrow> map_of kvs ''file'' = Some (JStr k) \<Longrightarrow>
   is_valid_entry (JObj kvs) = Inr (\<not> denylisted k)"
  by (simp add: is_valid_entry_def deny_chain del: py_in.simps(1))

lemma entry_no_key:
  "map_of kvs ''output'' = None \<Longrightarrow> map_of kvs ''file'' = None \<Longrightarrow>
   is_valid_entry (JObj kvs) = Inr True"
  by (simp add: is_valid_entry_def)

text \<open>
  Claim C1. On a record, the key is the value of \<^verbatim>\<open>output\<close> when the record
  has that field, else the value of \<^verbatim>\<open>file\<close> when it has that one, else there
  is no key. A record with no key is kept, whatever its other fields. A record
  whose key is the string \<open>k\<close> is kept exactly when \<open>k\<close> contains none of the
  four literal substrings, where containing means: \<open>k\<close> is some characters, the
  substring, and some more characters.
\<close>
theorem is_valid_entry_key_rule: "(\<forall>k. map_of kvs ''output'' = Some (JStr k) \<longrightarrow>
        is_valid_entry (JObj kvs) = Inr (\<not> denylisted k)) \<and>
   (\<forall>k. map_of kvs ''output'' = None \<and> map_of kvs ''file'' = Some (JStr k) \<longrightarrow>
        is_valid_entry (JObj kvs) = Inr (\<not> denylisted k)) \<and>
   (map_of kvs ''output'' = None \<and> map_of kvs ''file'' = None \<longrightarrow>
        is_valid_entry (JObj kvs) = Inr True)"
  by (simp add: entry_str_output entry_str_file entry_no_key)

text \<open>
  The rule at records of each kind; \<^verbatim>\<open>_DEPS\<close> is not \<^verbatim>\<open>_deps\<close>, and the
  dot of \<^verbatim>\<open>stb.c\<close> stands for itself only.
\<close>
theorem is_valid_entry_key_rule_witness:
  "is_valid_entry (JObj [(''file'', JStr ''src/a.cpp''), (''output'', JStr ''obj/embedded_files/a.o'')] :: int json) = Inr False
   \<and> is_valid_entry (JObj [(''file'', JStr ''src/a.cpp''), (''output'', JStr ''obj/a.o'')] :: int json) = Inr True
   \<and> is_valid_entry (JObj [(''file'', JStr ''cerlibTests.dir/a.cpp'')] :: int json) = Inr False
   \<and> is_valid_entry (JObj [(''file'', JStr ''src/_DEPS/a.cpp'')] :: int json) = Inr True
   \<and> is_valid_entry (JObj [(''file'', JStr ''lib/stbxc'')] :: int json) = Inr True
   \<and> is_valid_entry (JObj [(''command'', JStr ''cc -c stb.c'')] :: int json) = Inr True"
  using is_valid_entry_key_rule [of "[(''file'', JStr ''src/a.cpp''), (''output'', JStr ''obj/embedded_files/a.o'' :: int json)]"]
        is_valid_entry_key_rule [of "[(''file'', JStr ''src/a.cpp''), (''output'', JStr ''obj/a.o'' :: int json)]"]
        is_valid_entry_key_rule [of "[(''file'', JStr ''cerlibTests.dir/a.cpp'' :: int json)]"]
        is_valid_entry_key_rule [of "[(''file'', JStr ''src/_DEPS/a.cpp'' :: int json)]"]
        is_valid_entry_key_rule [of "[(''file'', JStr ''lib/stbxc'' :: int json)]"]
        is_valid_entry_key_rule [of "[(''command'', JStr ''cc -c stb.c'' :: int json)]"]
  by (simp add: denylisted_code)

text \<open>
  Claim C9 says that a record whose \<^verbatim>\<open>file\<close> value contains \<^verbatim>\<open>stb.c\<close> is
  excluded. The record with \<^verbatim>\<open>file = "/vendor/stb.c"\<close> and
  \<^verbatim>\<open>output = "build/src/foo.cpp.o"\<close> is kept: its key is the \<^verbatim>\<open>output\<close>
  value.
\<close>
theorem stb_file_kept_by_clean_output:
  "''/vendor/stb.c'' = ''/vendor/'' @ ''stb.c'' @ []
   \<and> is_valid_entry (JObj [(''file'', JStr ''/vendor/stb.c''),
                            (''output'', JStr ''build/src/foo.cpp.o'')] :: int json) = Inr True"
  by (simp add: is_valid_entry_def)

text \<open>
  Claim C9, amended. Every record with \<^verbatim>\<open>output = "build/_deps/foo.cpp.o"\<close>
  is excluded, whatever its other fields are; every record with
  \<^verbatim>\<open>output = "build/src/foo.cpp.o"\<close> is kept; and every record that has no
  \<^verbatim>\<open>output\<close> field and whose \<^verbatim>\<open>file\<close> value is some characters,
  \<^verbatim>\<open>stb.c\<close>, and some more characters is excluded.
\<close>
theorem is_valid_entry_instances:
  "(map_of kvs ''output'' = Some (JStr ''build/_deps/foo.cpp.o'') \<longrightarrow>
      is_valid_entry (JObj kvs) = Inr False)
   \<and> (map_of kvs ''output'' = Some (JStr ''build/src/foo.cpp.o'') \<longrightarrow>
      is_valid_entry (JObj kvs) = Inr True)
   \<and> (\<forall>before after.
        map_of kvs ''output'' = None
        \<and> map_of kvs ''file'' = Some (JStr (before @ ''stb.c'' @ after)) \<longrightarrow>
        is_valid_entry (JObj kvs) = Inr False)"
proof (intro conjI allI impI)
  assume "map_of kvs ''output'' = Some (JStr ''build/_deps/foo.cpp.o'')"
  then show "is_valid_entry (JObj kvs) = Inr False"
    by (simp add: entry_str_output denylisted_code)
next
  assume "map_of kvs ''output'' = Some (JStr ''build/src/foo.cpp.o'')"
  then show "is_valid_entry (JObj kvs) = Inr True"
    by (simp add: entry_str_output denylisted_code)
next
  fix before after
  assume "map_of kvs ''output'' = None
        \<and> map_of kvs ''file'' = Some (JStr (before @ ''stb.c'' @ after))"
  moreover have "denylisted (before @ ''stb.c'' @ after)"
    unfolding denylisted_def denylist_def by auto
  ultimately show "is_valid_entry (JObj kvs) = Inr False"
    by (simp add: entry_str_file)
qed

text \<open>
  The records of the claim: the two \<^verbatim>\<open>output\<close> values, the second next to
  another field, and the two \<^verbatim>\<open>file\<close> values.
\<close>
theorem is_valid_entry_instances_witness:
  "is_valid_entry (JObj [(''output'', JStr ''build/_deps/foo.cpp.o'')] :: int json) = Inr False
   \<and> is_valid_entry (JObj [(''directory'', JStr ''/w''), (''output'', JStr ''build/src/foo.cpp.o'')]
        :: int json) = Inr True
   \<and> is_valid_entry (JObj [(''file'', JStr ''/vendor/stb.c'')] :: int json) = Inr False
   \<and> is_valid_entry (JObj [(''file'', JStr ''/x/stb.c.bak'')] :: int json) = Inr False"
proof -
  have "is_valid_entry (JObj [(''output'', JStr ''build/_deps/foo.cpp.o'')] :: int json) = Inr False"
    using is_valid_entry_instances
      [of "[(''output'', JStr ''build/_deps/foo.cpp.o'' :: int json)]", THEN conjunct1]
    by simp
  moreover have "is_valid_entry (JObj [(''directory'', JStr ''/w''),
      (''output'', JStr ''build/src/foo.cpp.o'')] :: int json) = Inr True"
    using is_valid_entry_instances
      [of "[(''directory'', JStr ''/w''), (''output'', JStr ''build/src/foo.cpp.o'' :: int json)]",
       THEN conjunct2, THEN conjunct1]
    by simp
  moreover have "is_valid_entry (JObj [(''file'', JStr ''/vendor/stb.c'')] :: int json) = Inr False"
    using is_valid_entry_instances
      [of "[(''file'', JStr ''/vendor/stb.c'' :: int json)]",
       THEN conjunct2, THEN conjunct2, rule_format, of "''/vendor/''" "[]"]
    by simp
  moreover have "is_valid_entry (JObj [(''file'', JStr ''/x/stb.c.bak'')] :: int json) = Inr False"
    using is_valid_entry_instances
      [of "[(''file'', JStr ''/x/stb.c.bak'' :: int json)]",
       THEN conjunct2, THEN conjunct2, rule_format, of "''/x/''" "''.bak''"]
    by simp
  ultimately show ?thesis by simp
qed

text \<open>
  Claim C10. Two records with the same \<^verbatim>\<open>output\<close> value get the same
  decision (or the same exception), whatever their \<^verbatim>\<open>file\<close> fields are; and a
  record whose \<^verbatim>\<open>output\<close> is a string with none of the four substrings is
  kept, whatever its \<^verbatim>\<open>file\<close> field is.
\<close>
theorem decision_depends_on_output_only:
  assumes "map_of kvs1 ''output'' = Some v" and "map_of kvs2 ''output'' = Some v"
  shows "is_valid_entry (JObj kvs1) = is_valid_entry (JObj kvs2)
         \<and> (\<forall>k. v = JStr k \<and> \<not> denylisted k \<longrightarrow> is_valid_entry (JObj kvs1) = Inr True)"
proof -
  have "is_valid_entry (JObj kvs1) = is_valid_entry (JObj [(''output'', v)])"
    and "is_valid_entry (JObj kvs2) = is_valid_entry (JObj [(''output'', v)])"
    using assms by (simp_all add: is_valid_entry_def)
  moreover have "\<forall>k. v = JStr k \<and> \<not> denylisted k \<longrightarrow> is_valid_entry (JObj kvs1) = Inr True"
    using assms(1) by (simp add: entry_str_output)
  ultimately show ?thesis by simp
qed

text \<open>A clean \<^verbatim>\<open>output\<close> next to a \<^verbatim>\<open>file\<close> that names \<^verbatim>\<open>stb.c\<close>.\<close>
theorem decision_depends_on_output_only_witness:
  "is_valid_entry (JObj [(''file'', JStr ''third_party/stb.c''), (''output'', JStr ''obj/image.o'')] :: int json)
     = is_valid_entry (JObj [(''file'', JStr ''src/image.cpp''), (''output'', JStr ''obj/image.o'')])
   \<and> is_valid_entry (JObj [(''file'', JStr ''third_party/stb.c''), (''output'', JStr ''obj/image.o'')] :: int json)
     = Inr True"
  using decision_depends_on_output_only [of "[(''file'', JStr ''third_party/stb.c''), (''output'', JStr ''obj/image.o'')]"
               "JStr ''obj/image.o'' :: int json"
               "[(''file'', JStr ''src/image.cpp''), (''output'', JStr ''obj/image.o'')]"]
  by (simp add: denylisted_code is_valid_entry_def)

lemma compile_command_valid:
  "compile_command obj \<Longrightarrow> \<exists>keep. is_valid_entry obj = Inr keep"
proof (cases obj)
  case (JObj kvs)
  assume "compile_command obj"
  with JObj have "str_or_absent (map_of kvs ''output'')" and "str_or_absent (map_of kvs ''file'')"
    by simp_all
  then have "\<exists>keep. is_valid_entry (JObj kvs) = Inr keep"
    by (auto simp: str_or_absent_def entry_str_output entry_str_file entry_no_key
          split: option.splits json.splits)
  with JObj show ?thesis by simp
qed simp_all

lemma filter_entries_filter:
  "filter_entries objs = Inr kept \<Longrightarrow> kept = filter (\<lambda>obj. is_valid_entry obj = Inr True) objs"
  by (induction objs arbitrary: kept) (auto simp: bindE_def split: sum.splits if_splits)

lemma filter_entries_total:
  "list_all compile_command objs \<Longrightarrow> \<exists>kept. filter_entries objs = Inr kept"
proof (induction objs)
  case Nil
  show ?case by simp
next
  case (Cons obj objs)
  then obtain keep kept where "is_valid_entry obj = Inr keep" "filter_entries objs = Inr kept"
    using compile_command_valid by fastforce
  then show ?case by simp
qed

lemma filter_entries_fixed:
  "\<forall>obj\<in>set objs. is_valid_entry obj = Inr True \<Longrightarrow> filter_entries objs = Inr objs"
  by (induction objs) simp_all

lemma filter_entries_again:
  "filter_entries objs = Inr kept \<Longrightarrow> filter_entries kept = Inr kept"
  using filter_entries_filter [of objs kept] by (simp add: filter_entries_fixed)

lemma filter_doc_JArr:
  "filter_doc (JArr objs) = bindE (filter_entries objs) (\<lambda>kept. Inr (JArr kept))"
  by (simp add: filter_doc_def)

lemma filter_doc_result:
  "filter_doc d = Inr r \<Longrightarrow>
   \<exists>objs kept. py_iter d = Inr objs \<and> filter_entries objs = Inr kept \<and> r = JArr kept"
  by (auto simp: filter_doc_def bindE_def split: sum.splits)

text \<open>
  Claim C6. When the filter returns, its result is a subsequence of the list it
  was given: the entries that \<^verbatim>\<open>is_valid_entry\<close> accepts, each as it was and
  in the order they had. On a list of records the filter does return.
\<close>
theorem filter_is_subsequence:
  "(\<forall>r. filter_doc (JArr objs) = Inr r \<longrightarrow>
      (\<exists>kept. r = JArr kept \<and> subseq kept objs \<and> kept = filter (\<lambda>obj. is_valid_entry obj = Inr True) objs))
   \<and> (list_all compile_command objs \<longrightarrow> (\<exists>kept. filter_doc (JArr objs) = Inr (JArr kept)))"
proof (intro conjI allI impI)
  fix r assume "filter_doc (JArr objs) = Inr r"
  then obtain kept where k: "filter_entries objs = Inr kept" "r = JArr kept"
    using filter_doc_result by fastforce
  then have "kept = filter (\<lambda>obj. is_valid_entry obj = Inr True) objs"
    by (simp add: filter_entries_filter)
  with k show "\<exists>kept. r = JArr kept \<and> subseq kept objs \<and> kept = filter (\<lambda>obj. is_valid_entry obj = Inr True) objs"
    by simp
next
  assume "list_all compile_command objs"
  then show "\<exists>kept. filter_doc (JArr objs) = Inr (JArr kept)"
    using filter_entries_total [of objs] by (auto simp: filter_doc_JArr)
qed

lemma demo_filter: "filter_entries demo_entries = Inr demo_kept"
  by (simp add: demo_entries_def demo_kept_def is_valid_entry_def)

text \<open>The four entries of the example, of which the first and the last are kept.\<close>
theorem filter_is_subsequence_witness:
  "filter_doc (JArr demo_entries) = Inr (JArr demo_kept) \<and> subseq demo_kept demo_entries
   \<and> list_all compile_command demo_entries"
proof -
  have d: "filter_doc (JArr demo_entries) = Inr (JArr demo_kept)"
    by (simp add: filter_doc_JArr demo_filter)
  have w: "list_all compile_command demo_entries"
    by (simp add: demo_entries_def str_or_absent_def)
  from filter_is_subsequence [of demo_entries] d obtain kept
    where "JArr demo_kept = JArr kept" and "subseq kept demo_entries"
    by blast
  with d w show ?thesis by simp
qed

text \<open>
  Claim C7. Filtering what the filter returned gives the same list again, for
  the comprehension over a list and for the whole document; where the first
  pass raises, so does the composition. On a list of records the first pass
  returns, and the second returns the same.
\<close>
theorem filter_idempotent:
  "bindE (filter_entries objs) filter_entries = filter_entries objs
   \<and> bindE (filter_doc d) filter_doc = filter_doc d
   \<and> (list_all compile_command objs \<longrightarrow>
        (\<exists>kept. filter_entries objs = Inr kept \<and> filter_entries kept = Inr kept))"
proof (intro conjI impI)
  show "bindE (filter_entries objs) filter_entries = filter_entries objs"
    by (cases "filter_entries objs") (simp_all add: filter_entries_again)
  show "bindE (filter_doc d) filter_doc = filter_doc d"
  proof (cases "filter_doc d")
    case (Inr r)
    then obtain xs kept where "filter_entries xs = Inr kept" "r = JArr kept"
      using filter_doc_result by blast
    with Inr show ?thesis by (simp add: filter_doc_JArr filter_entries_again)
  qed simp
  assume "list_all compile_command objs"
  then show "\<exists>kept. filter_entries objs = Inr kept \<and> filter_entries kept = Inr kept"
    using filter_entries_total [of objs] filter_entries_again by blast
qed

text \<open>The entries of the example, filtered once and twice.\<close>
theorem filter_idempotent_witness:
  "filter_entries demo_entries = Inr demo_kept \<and> filter_entries demo_kept = Inr demo_kept"
proof -
  have w: "list_all compile_command demo_entries"
    by (simp add: demo_entries_def str_or_absent_def)
  from filter_idempotent [of demo_entries "JArr demo_entries"] w show ?thesis
    by (auto simp: demo_filter)
qed

section \<open>Properties of the script\<close>

lemma of_digit_char: "d < 10 \<Longrightarrow> (of_char (digit_char d) :: nat) = 48 + d"
proof -
  assume "d < 10"
  then have "d = 0 \<or> d = 1 \<or> d = 2 \<or> d = 3 \<or> d = 4 \<or> d = 5 \<or> d = 6 \<or> d = 7 \<or> d = 8 \<or> d = 9"
    by arith
  then show ?thesis by (elim disjE) (simp_all add: digit_char_def)
qed

lemma dec_value_snoc: "dec_value (s @ [c]) = 10 * dec_value s + (of_char c - 48)"
  by (simp add: dec_value_def)

lemma dec_value_str_nat: "dec_value (str_nat n) = n"
proof (induction n rule: str_nat.induct)
  case (1 n)
  show ?case
  proof (cases "n < 10")
    case True
    then show ?thesis by (simp add: str_nat.simps [of n] dec_value_def of_digit_char)
  next
    case False
    with 1 show ?thesis
      by (simp add: str_nat.simps [of n] dec_value_snoc of_digit_char)
  qed
qed

text \<open>How the interpreter ends.\<close>

lemma exit_status_failure [simp]: "exit_status h tr 1 \<noteq> 0"
  by (simp add: exit_status_def)

lemma exit_status_1_or_120: "exit_status h tr 1 = 1 \<or> exit_status h tr 1 = 120"
  by (simp add: exit_status_def)

lemma trace_sys_exit [simp]: "trace (sys_exit h tr msg) = tr @ [Stderr msg]"
  by (simp add: sys_exit_def)

lemma status_sys_exit [simp]: "status (sys_exit h tr msg) = exit_status h (tr @ [Stderr msg]) 1"
  by (simp add: sys_exit_def)

lemma trace_uncaught [simp]: "trace (uncaught h tr e) = tr @ [Traceback e]"
  by (simp add: uncaught_def)

lemma status_uncaught [simp]: "status (uncaught h tr e) = exit_status h (tr @ [Traceback e]) 1"
  by (simp add: uncaught_def)

lemma trace_finished [simp]: "trace (finished h tr) = tr"
  by (simp add: finished_def)

lemma status_finished [simp]: "status (finished h tr) = exit_status h tr 0"
  by (simp add: finished_def)

text \<open>The script, stage by stage.\<close>

lemma main_no_database:
  assumes "\<not> path_exists h (path_join build_dir ''compile_commands.json'')"
  shows "cppcheck_main h (prog # build_dir # rest) =
           sys_exit h [] (''error: compile_commands.json not found in '' @ build_dir)"
  using assms by (simp add: cppcheck_main_def Let_def)

lemma main_first_print_fails:
  assumes "path_exists h (path_join build_dir ''compile_commands.json'')"
    and "print_line h (''Performing Cppcheck checks in directory: '' @ build_dir) = Inl e"
  shows "cppcheck_main h (prog # build_dir # rest) =
           uncaught h [Stdout (''Performing Cppcheck checks in directory: '' @ build_dir)] e"
  using assms by (simp add: cppcheck_main_def Let_def)

lemma main_no_tool:
  assumes "path_exists h (path_join build_dir ''compile_commands.json'')"
    and "print_line h (''Performing Cppcheck checks in directory: '' @ build_dir) = Inr u"
    and "which h ''cppcheck'' = None \<or> which h ''cppcheck'' = Some []"
  shows "cppcheck_main h (prog # build_dir # rest) =
           sys_exit h [Stdout (''Performing Cppcheck checks in directory: '' @ build_dir)]
             ''error: unable to find cppcheck''"
  using assms by (auto simp: cppcheck_main_def Let_def)

lemma main_second_print_fails:
  assumes "path_exists h (path_join build_dir ''compile_commands.json'')"
    and "print_line h (''Performing Cppcheck checks in directory: '' @ build_dir) = Inr u"
    and "which h ''cppcheck'' = Some cmd" and "cmd \<noteq> []"
    and "print_line h (''Found cppcheck: '' @ cmd) = Inl e"
  shows "cppcheck_main h (prog # build_dir # rest) =
           uncaught h [Stdout (''Performing Cppcheck checks in directory: '' @ build_dir),
                       Stdout (''Found cppcheck: '' @ cmd)] e"
  using assms by (simp add: cppcheck_main_def Let_def)

lemma main_tool_found:
  assumes "path_exists h (path_join build_dir ''compile_commands.json'')"
    and "print_line h (''Performing Cppcheck checks in directory: '' @ build_dir) = Inr u"
    and "which h ''cppcheck'' = Some cmd" and "cmd \<noteq> []"
    and "print_line h (''Found cppcheck: '' @ cmd) = Inr u'"
  shows "cppcheck_main h (prog # build_dir # rest) =
     (case json_load h (path_join build_dir ''compile_commands.json'') of
        Inl e \<Rightarrow> uncaught h (found_trace build_dir cmd) e
      | Inr json_doc \<Rightarrow>
          (case filter_doc json_doc of
             Inl e \<Rightarrow> uncaught h (found_trace build_dir cmd) e
           | Inr filtered \<Rightarrow> persist h (found_trace build_dir cmd) build_dir cmd filtered))"
  using assms by (simp add: cppcheck_main_def found_trace_def Let_def split: sum.splits)

lemma invoke_outcome:
  "invoke h tr cmd out =
     (case cpu_count h of
        Inl e \<Rightarrow> uncaught h tr e
      | Inr n \<Rightarrow>
          (case child_exit h [cmd, ''--project='' @ out, ''--enable=warning'',
                              ''--std=c++20'', ''-j'', str_nat n] of
             Inl e \<Rightarrow>
               uncaught h
                 (tr @ [CheckCall [cmd, ''--project='' @ out, ''--enable=warning'',
                                   ''--std=c++20'', ''-j'', str_nat n] False]) e
           | Inr rc \<Rightarrow>
               if rc = 0
               then finished h
                 (tr @ [CheckCall [cmd, ''--project='' @ out, ''--enable=warning'',
                                   ''--std=c++20'', ''-j'', str_nat n] False])
               else uncaught h
                 (tr @ [CheckCall [cmd, ''--project='' @ out, ''--enable=warning'',
                                   ''--std=c++20'', ''-j'', str_nat n] False])
                 (CalledProcessError rc)))"
  by (simp add: invoke_def Let_def split: sum.splits)

lemma persist_outcome:
  "persist h tr build_dir cmd doc =
     (case file_write h (path_join build_dir ''compile_commands_cppcheck.json'')
             (json_dumps h doc 2) of
        Inl e \<Rightarrow>
          uncaught h
            (tr @ [WriteFile (path_join build_dir ''compile_commands_cppcheck.json'')
                     (json_dumps h doc 2)]) e
      | Inr u \<Rightarrow>
          invoke h
            (tr @ [WriteFile (path_join build_dir ''compile_commands_cppcheck.json'')
                     (json_dumps h doc 2)])
            cmd (path_join build_dir ''compile_commands_cppcheck.json''))"
  by (simp add: persist_def Let_def split: sum.splits)

text \<open>
  Every run is of one of five kinds: no database, the first line not printed,
  no analyzer, the second line not printed, or the database opened.
\<close>

lemma main_kinds:
  "(\<not> path_exists h (path_join build_dir ''compile_commands.json'')
      \<and> cppcheck_main h (prog # build_dir # rest) =
          sys_exit h [] (''error: compile_commands.json not found in '' @ build_dir))
   \<or> (\<exists>e. path_exists h (path_join build_dir ''compile_commands.json'')
      \<and> cppcheck_main h (prog # build_dir # rest) =
          uncaught h [Stdout (''Performing Cppcheck checks in directory: '' @ build_dir)] e)
   \<or> (path_exists h (path_join build_dir ''compile_commands.json'')
      \<and> (which h ''cppcheck'' = None \<or> which h ''cppcheck'' = Some [])
      \<and> cppcheck_main h (prog # build_dir # rest) =
          sys_exit h [Stdout (''Performing Cppcheck checks in directory: '' @ build_dir)]
            ''error: unable to find cppcheck'')
   \<or> (\<exists>cmd e. path_exists h (path_join build_dir ''compile_commands.json'')
      \<and> which h ''cppcheck'' = Some cmd \<and> cmd \<noteq> []
      \<and> cppcheck_main h (prog # build_dir # rest) =
          uncaught h [Stdout (''Performing Cppcheck checks in directory: '' @ build_dir),
                      Stdout (''Found cppcheck: '' @ cmd)] e)
   \<or> (\<exists>cmd. path_exists h (path_join build_dir ''compile_commands.json'')
      \<and> which h ''cppcheck'' = Some cmd \<and> cmd \<noteq> []
      \<and> print_line h (''Performing Cppcheck checks in directory: '' @ build_dir) = Inr ()
      \<and> print_line h (''Found cppcheck: '' @ cmd) = Inr ()
      \<and> cppcheck_main h (prog # build_dir # rest) =
          (case json_load h (path_join build_dir ''compile_commands.json'') of
             Inl e \<Rightarrow> uncaught h (found_trace build_dir cmd) e
           | Inr json_doc \<Rightarrow>
               (case filter_doc json_doc of
                  Inl e \<Rightarrow> uncaught h (found_trace build_dir cmd) e
                | Inr filtered \<Rightarrow> persist h (found_trace build_dir cmd) build_dir cmd filtered)))"
proof (cases "path_exists h (path_join build_dir ''compile_commands.json'')")
  case False
  from main_no_database [OF False] False show ?thesis by blast
next
  case db: True
  show ?thesis
  proof (cases "print_line h (''Performing Cppcheck checks in directory: '' @ build_dir)")
    case (Inl e)
    from main_first_print_fails [OF db Inl] db show ?thesis by blast
  next
    case p1: (Inr u)
    show ?thesis
    proof (cases "\<exists>cmd. which h ''cppcheck'' = Some cmd \<and> cmd \<noteq> []")
      case False
      then have none: "which h ''cppcheck'' = None \<or> which h ''cppcheck'' = Some []"
        by (cases "which h ''cppcheck''") simp_all
      from main_no_tool [OF db p1 none] db none show ?thesis by blast
    next
      case True
      then obtain cmd where w: "which h ''cppcheck'' = Some cmd" "cmd \<noteq> []" by blast
      show ?thesis
      proof (cases "print_line h (''Found cppcheck: '' @ cmd)")
        case (Inl e)
        from main_second_print_fails [OF db p1 w Inl] db w show ?thesis by blast
      next
        case p2: (Inr u')
        have "u = ()" and "u' = ()" by simp_all
        with p1 p2 have p: "print_line h (''Performing Cppcheck checks in directory: '' @ build_dir) = Inr ()"
          "print_line h (''Found cppcheck: '' @ cmd) = Inr ()" by simp_all
        from main_tool_found [OF db p(1) w p(2)] db w p show ?thesis by blast
      qed
    qed
  qed
qed

text \<open>
  Claim C5. When \<^verbatim>\<open>compile_commands.json\<close> does not exist under the build
  directory, the only thing the script does is to send a message that ends with
  the name of that directory to standard error; its status is 1, or 120 when the
  interpreter cannot flush standard error at the end, so never 0; and no file is
  written.
\<close>
theorem missing_database_exits:
  assumes "\<not> path_exists h (path_join build_dir ''compile_commands.json'')"
  shows "cppcheck_main h (prog # build_dir # rest) =
           \<lparr>trace = [Stderr (''error: compile_commands.json not found in '' @ build_dir)],
            status = (if flush_stderr_ok h then 1 else 120)\<rparr>
         \<and> status (cppcheck_main h (prog # build_dir # rest)) \<noteq> 0
         \<and> filter is_write (trace (cppcheck_main h (prog # build_dir # rest))) = []"
  using assms by (simp add: main_no_database) (simp add: sys_exit_def exit_status_def)

text \<open>The example host has no database under \<^verbatim>\<open>out\<close>.\<close>
theorem missing_database_exits_witness:
  "\<not> path_exists demo_host (path_join ''out'' ''compile_commands.json'')
   \<and> cppcheck_main demo_host [''cppcheck.py'', ''out''] =
       \<lparr>trace = [Stderr ''error: compile_commands.json not found in out''], status = 1\<rparr>"
proof -
  have w: "\<not> path_exists demo_host (path_join ''out'' ''compile_commands.json'')"
    by (simp add: demo_host_def path_join_def)
  have f: "flush_stderr_ok demo_host"
    by (simp add: demo_host_def)
  from missing_database_exits [OF w, of "''cppcheck.py''" "[]"] w f show ?thesis by simp
qed

text \<open>
  Claim C2 says that, with the database in place and no analyzer on the search
  path, the script ends after it has written the filtered database. On the
  example host without the analyzer it ends with status 1 after one line of
  output and the message of line 18, and has written nothing.
\<close>
theorem missing_tool_writes_nothing:
  "path_exists no_tool_host (path_join ''build'' ''compile_commands.json'')
   \<and> which no_tool_host ''cppcheck'' = None
   \<and> cppcheck_main no_tool_host [''cppcheck.py'', ''build''] =
       \<lparr>trace = [Stdout ''Performing Cppcheck checks in directory: build'',
                 Stderr ''error: unable to find cppcheck''], status = 1\<rparr>
   \<and> filter is_write (trace (cppcheck_main no_tool_host [''cppcheck.py'', ''build''])) = []"
  by (simp add: no_tool_host_def demo_host_def path_join_def cppcheck_main_def sys_exit_def
        exit_status_def Let_def)

lemma demo_encode: "dumps (JArr demo_kept) 2 = demo_text"
  by code_simp

lemma main_invoked:
  assumes "path_exists h (path_join build_dir ''compile_commands.json'')"
    and "print_line h (''Performing Cppcheck checks in directory: '' @ build_dir) = Inr u1"
    and "which h ''cppcheck'' = Some cmd" and "cmd \<noteq> []"
    and "print_line h (''Found cppcheck: '' @ cmd) = Inr u2"
    and "json_load h (path_join build_dir ''compile_commands.json'') = Inr doc"
    and "filter_doc doc = Inr filtered"
    and "file_write h (path_join build_dir ''compile_commands_cppcheck.json'')
           (json_dumps h filtered 2) = Inr u"
    and "cpu_count h = Inr n"
    and "child_exit h [cmd, ''--project='' @ path_join build_dir ''compile_commands_cppcheck.json'',
            ''--enable=warning'', ''--std=c++20'', ''-j'', str_nat n] = Inr rc"
  shows "trace (cppcheck_main h (prog # build_dir # rest)) =
           [Stdout (''Performing Cppcheck checks in directory: '' @ build_dir),
            Stdout (''Found cppcheck: '' @ cmd),
            OpenRead (path_join build_dir ''compile_commands.json''),
            WriteFile (path_join build_dir ''compile_commands_cppcheck.json'')
              (json_dumps h filtered 2),
            CheckCall [cmd, ''--project='' @ path_join build_dir ''compile_commands_cppcheck.json'',
                       ''--enable=warning'', ''--std=c++20'', ''-j'', str_nat n] False]
           @ (if rc = 0 then [] else [Traceback (CalledProcessError rc)])
         \<and> status (cppcheck_main h (prog # build_dir # rest)) =
             (if rc = 0 then (if flush_stdout_ok h then 0 else 120)
              else (if flush_stdout_ok h \<and> flush_stderr_ok h then 1 else 120))"
  using assms
  by (simp add: main_tool_found persist_outcome invoke_outcome found_trace_def exit_status_def)

lemma outcome_eq: "r = \<lparr>trace = trace r, status = status r\<rparr>"
  by simp

lemma demo_paths:
  "path_join ''build'' ''compile_commands.json'' = ''build/compile_commands.json''"
  "path_join ''build'' ''compile_commands_cppcheck.json'' = ''build/compile_commands_cppcheck.json''"
  by (simp_all add: path_join_def)

lemma demo_filter_doc: "filter_doc (JArr demo_entries) = Inr (JArr demo_kept)"
  by (simp add: filter_doc_JArr demo_filter)

lemma str_nat_8: "str_nat 8 = ''8''"
  by (simp add: str_nat.simps digit_char_def)




text \<open>
  Claim C2, amended. With the database in place and no analyzer found (none on
  the search path, or an empty name), the script ends with a status other than 0
  before the database is opened: after the first line of output comes the
  message of line 18, or the traceback of \<^verbatim>\<open>print\<close> when that raised, and
  nothing else, so nothing is read, nothing is written and no child is started.
  With standard streams that work the status is 1. The order of the steps is:
  check the database, find the analyzer, load, filter, write, invoke; the trace
  of a run where every step succeeds shows it.
\<close>
theorem missing_tool_stops_before_load:
  assumes "path_exists h (path_join build_dir ''compile_commands.json'')"
  shows "(which h ''cppcheck'' = None \<or> which h ''cppcheck'' = Some [] \<longrightarrow>
            status (cppcheck_main h (prog # build_dir # rest)) \<noteq> 0
            \<and> (trace (cppcheck_main h (prog # build_dir # rest)) =
                   [Stdout (''Performing Cppcheck checks in directory: '' @ build_dir),
                    Stderr ''error: unable to find cppcheck'']
                \<or> (\<exists>e. trace (cppcheck_main h (prog # build_dir # rest)) =
                   [Stdout (''Performing Cppcheck checks in directory: '' @ build_dir),
                    Traceback e]))
            \<and> (print_line h (''Performing Cppcheck checks in directory: '' @ build_dir) = Inr ()
                 \<and> flush_stdout_ok h \<and> flush_stderr_ok h \<longrightarrow>
                cppcheck_main h (prog # build_dir # rest) =
                  \<lparr>trace = [Stdout (''Performing Cppcheck checks in directory: '' @ build_dir),
                            Stderr ''error: unable to find cppcheck''],
                   status = 1\<rparr>))
    \<and> (\<forall>cmd doc filtered n.
          print_line h (''Performing Cppcheck checks in directory: '' @ build_dir) = Inr ()
          \<and> which h ''cppcheck'' = Some cmd \<and> cmd \<noteq> []
          \<and> print_line h (''Found cppcheck: '' @ cmd) = Inr ()
          \<and> json_load h (path_join build_dir ''compile_commands.json'') = Inr doc
          \<and> filter_doc doc = Inr filtered
          \<and> file_write h (path_join build_dir ''compile_commands_cppcheck.json'')
                (json_dumps h filtered 2) = Inr ()
          \<and> cpu_count h = Inr n
          \<and> child_exit h [cmd, ''--project='' @ path_join build_dir ''compile_commands_cppcheck.json'',
                ''--enable=warning'', ''--std=c++20'', ''-j'', str_nat n] = Inr 0
          \<and> flush_stdout_ok h
          \<longrightarrow> cppcheck_main h (prog # build_dir # rest) =
              \<lparr>trace = [Stdout (''Performing Cppcheck checks in directory: '' @ build_dir),
                        Stdout (''Found cppcheck: '' @ cmd),
                        OpenRead (path_join build_dir ''compile_commands.json''),
                        WriteFile (path_join build_dir ''compile_commands_cppcheck.json'')
                          (json_dumps h filtered 2),
                        CheckCall [cmd, ''--project='' @ path_join build_dir ''compile_commands_cppcheck.json'',
                          ''--enable=warning'', ''--std=c++20'', ''-j'', str_nat n] False],
               status = 0\<rparr>)"
proof (intro conjI allI impI)
  assume none: "which h ''cppcheck'' = None \<or> which h ''cppcheck'' = Some []"
  show "status (cppcheck_main h (prog # build_dir # rest)) \<noteq> 0"
  proof (cases "print_line h (''Performing Cppcheck checks in directory: '' @ build_dir)")
    case (Inl e)
    from main_first_print_fails [OF assms Inl] show ?thesis by simp
  next
    case (Inr u)
    from main_no_tool [OF assms Inr none] show ?thesis by simp
  qed
  show "trace (cppcheck_main h (prog # build_dir # rest)) =
                   [Stdout (''Performing Cppcheck checks in directory: '' @ build_dir),
                    Stderr ''error: unable to find cppcheck'']
                \<or> (\<exists>e. trace (cppcheck_main h (prog # build_dir # rest)) =
                   [Stdout (''Performing Cppcheck checks in directory: '' @ build_dir),
                    Traceback e])"
  proof (cases "print_line h (''Performing Cppcheck checks in directory: '' @ build_dir)")
    case (Inl e)
    from main_first_print_fails [OF assms Inl] show ?thesis by simp
  next
    case (Inr u)
    from main_no_tool [OF assms Inr none] show ?thesis by simp
  qed
  assume "print_line h (''Performing Cppcheck checks in directory: '' @ build_dir) = Inr ()
                 \<and> flush_stdout_ok h \<and> flush_stderr_ok h"
  then have p: "print_line h (''Performing Cppcheck checks in directory: '' @ build_dir) = Inr ()"
    and f: "flush_stdout_ok h" "flush_stderr_ok h" by simp_all
  from main_no_tool [OF assms p none] f
  show "cppcheck_main h (prog # build_dir # rest) =
                  \<lparr>trace = [Stdout (''Performing Cppcheck checks in directory: '' @ build_dir),
                            Stderr ''error: unable to find cppcheck''],
                   status = 1\<rparr>"
    by (simp add: sys_exit_def exit_status_def)
next
  fix cmd doc filtered n
  assume a: "print_line h (''Performing Cppcheck checks in directory: '' @ build_dir) = Inr ()
          \<and> which h ''cppcheck'' = Some cmd \<and> cmd \<noteq> []
          \<and> print_line h (''Found cppcheck: '' @ cmd) = Inr ()
          \<and> json_load h (path_join build_dir ''compile_commands.json'') = Inr doc
          \<and> filter_doc doc = Inr filtered
          \<and> file_write h (path_join build_dir ''compile_commands_cppcheck.json'')
                (json_dumps h filtered 2) = Inr ()
          \<and> cpu_count h = Inr n
          \<and> child_exit h [cmd, ''--project='' @ path_join build_dir ''compile_commands_cppcheck.json'',
                ''--enable=warning'', ''--std=c++20'', ''-j'', str_nat n] = Inr 0
          \<and> flush_stdout_ok h"
  with assms main_invoked [of h build_dir "()" cmd "()" doc filtered "()" n 0 prog rest]
    outcome_eq [of "cppcheck_main h (prog # build_dir # rest)"]
  show "cppcheck_main h (prog # build_dir # rest) =
              \<lparr>trace = [Stdout (''Performing Cppcheck checks in directory: '' @ build_dir),
                        Stdout (''Found cppcheck: '' @ cmd),
                        OpenRead (path_join build_dir ''compile_commands.json''),
                        WriteFile (path_join build_dir ''compile_commands_cppcheck.json'')
                          (json_dumps h filtered 2),
                        CheckCall [cmd, ''--project='' @ path_join build_dir ''compile_commands_cppcheck.json'',
                          ''--enable=warning'', ''--std=c++20'', ''-j'', str_nat n] False],
               status = 0\<rparr>"
    by simp
qed

text \<open>The example host without and with the analyzer.\<close>
theorem missing_tool_stops_before_load_witness:
  "path_exists no_tool_host (path_join ''build'' ''compile_commands.json'')
   \<and> cppcheck_main no_tool_host [''cppcheck.py'', ''build''] =
       \<lparr>trace = [Stdout ''Performing Cppcheck checks in directory: build'',
                 Stderr ''error: unable to find cppcheck''], status = 1\<rparr>
   \<and> path_exists demo_host (path_join ''build'' ''compile_commands.json'')
   \<and> cppcheck_main demo_host [''cppcheck.py'', ''build''] =
       \<lparr>trace = [Stdout ''Performing Cppcheck checks in directory: build'',
               Stdout ''Found cppcheck: /usr/bin/cppcheck'',
               OpenRead ''build/compile_commands.json'',
               WriteFile ''build/compile_commands_cppcheck.json'' demo_text,
               CheckCall [''/usr/bin/cppcheck'', ''--project=build/compile_commands_cppcheck.json'',
                          ''--enable=warning'', ''--std=c++20'', ''-j'', ''8''] False],
      status = 0\<rparr>"
proof -
  have e1: "path_exists no_tool_host (path_join ''build'' ''compile_commands.json'')"
    and e2: "path_exists demo_host (path_join ''build'' ''compile_commands.json'')"
    by (simp_all add: no_tool_host_def demo_host_def demo_paths)
  have w: "which no_tool_host ''cppcheck'' = None \<or> which no_tool_host ''cppcheck'' = Some []"
    by (simp add: no_tool_host_def)
  have p: "print_line no_tool_host (''Performing Cppcheck checks in directory: '' @ ''build'') = Inr ()
       \<and> flush_stdout_ok no_tool_host \<and> flush_stderr_ok no_tool_host"
    by (simp add: no_tool_host_def demo_host_def)
  have s: "print_line demo_host (''Performing Cppcheck checks in directory: '' @ ''build'') = Inr ()
       \<and> which demo_host ''cppcheck'' = Some ''/usr/bin/cppcheck'' \<and> ''/usr/bin/cppcheck'' \<noteq> []
       \<and> print_line demo_host (''Found cppcheck: '' @ ''/usr/bin/cppcheck'') = Inr ()
       \<and> json_load demo_host (path_join ''build'' ''compile_commands.json'') = Inr (JArr demo_entries)
       \<and> filter_doc (JArr demo_entries) = Inr (JArr demo_kept)
       \<and> file_write demo_host (path_join ''build'' ''compile_commands_cppcheck.json'')
                (json_dumps demo_host (JArr demo_kept) 2) = Inr ()
       \<and> cpu_count demo_host = Inr 8
       \<and> child_exit demo_host [''/usr/bin/cppcheck'', ''--project='' @ path_join ''build'' ''compile_commands_cppcheck.json'',
                ''--enable=warning'', ''--std=c++20'', ''-j'', str_nat 8] = Inr 0
       \<and> flush_stdout_ok demo_host"
    by (simp add: demo_host_def demo_paths demo_filter_doc)
  have d: "json_dumps demo_host (JArr demo_kept) 2 = demo_text"
    by (simp add: demo_host_def demo_encode)
  from missing_tool_stops_before_load [OF e1, THEN conjunct1, rule_format, OF w,
         THEN conjunct2, THEN conjunct2, rule_format, OF p, of "''cppcheck.py''" "[]"]
       missing_tool_stops_before_load [OF e2, THEN conjunct2, rule_format, OF s, of "''cppcheck.py''" "[]"]
       e1 e2 d
  show ?thesis by (simp add: demo_paths str_nat_8)
qed




text \<open>
  Claim C4. Every child the script starts is started with \<^verbatim>\<open>shell=False\<close> and
  the argument vector made of the path \<^verbatim>\<open>shutil.which\<close> returned,
  \<^verbatim>\<open>--project=\<close> followed by the path of the filtered database,
  \<^verbatim>\<open>--enable=warning\<close>, \<^verbatim>\<open>--std=c++20\<close>, \<^verbatim>\<open>-j\<close> and the decimal digits of
  the processor count. When the script gets as far as the processor count (both
  lines printed, the database loaded, filtered and written), it starts exactly
  one child.
\<close>
theorem check_call_argument_vector:
  "(\<forall>argv sh. CheckCall argv sh \<in> set (trace (cppcheck_main h (prog # build_dir # rest))) \<longrightarrow>
      sh = False
      \<and> (\<exists>cmd n. which h ''cppcheck'' = Some cmd \<and> cpu_count h = Inr n
            \<and> argv = [cmd, ''--project='' @ path_join build_dir ''compile_commands_cppcheck.json'',
                       ''--enable=warning'', ''--std=c++20'', ''-j'', str_nat n]
            \<and> dec_value (str_nat n) = n))
   \<and> (\<forall>cmd doc filtered u n.
        path_exists h (path_join build_dir ''compile_commands.json'')
        \<and> print_line h (''Performing Cppcheck checks in directory: '' @ build_dir) = Inr ()
        \<and> which h ''cppcheck'' = Some cmd \<and> cmd \<noteq> []
        \<and> print_line h (''Found cppcheck: '' @ cmd) = Inr ()
        \<and> json_load h (path_join build_dir ''compile_commands.json'') = Inr doc
        \<and> filter_doc doc = Inr filtered
        \<and> file_write h (path_join build_dir ''compile_commands_cppcheck.json'')
              (json_dumps h filtered 2) = Inr u
        \<and> cpu_count h = Inr n
        \<longrightarrow> filter is_call (trace (cppcheck_main h (prog # build_dir # rest))) =
              [CheckCall [cmd, ''--project='' @ path_join build_dir ''compile_commands_cppcheck.json'',
                          ''--enable=warning'', ''--std=c++20'', ''-j'', str_nat n] False])"
proof (intro conjI)
  show "\<forall>argv sh. CheckCall argv sh \<in> set (trace (cppcheck_main h (prog # build_dir # rest))) \<longrightarrow>
      sh = False
      \<and> (\<exists>cmd n. which h ''cppcheck'' = Some cmd \<and> cpu_count h = Inr n
            \<and> argv = [cmd, ''--project='' @ path_join build_dir ''compile_commands_cppcheck.json'',
                       ''--enable=warning'', ''--std=c++20'', ''-j'', str_nat n]
            \<and> dec_value (str_nat n) = n)"
    using main_kinds [of h build_dir prog rest]
  proof (elim disjE exE conjE)
    fix cmd
    assume "which h ''cppcheck'' = Some cmd"
      and "cppcheck_main h (prog # build_dir # rest) =
          (case json_load h (path_join build_dir ''compile_commands.json'') of
             Inl e \<Rightarrow> uncaught h (found_trace build_dir cmd) e
           | Inr json_doc \<Rightarrow>
               (case filter_doc json_doc of
                  Inl e \<Rightarrow> uncaught h (found_trace build_dir cmd) e
                | Inr filtered \<Rightarrow> persist h (found_trace build_dir cmd) build_dir cmd filtered))"
    then show ?thesis
      by (auto simp: persist_outcome invoke_outcome found_trace_def dec_value_str_nat
            split: sum.splits)
  qed auto
next
  show "\<forall>cmd doc filtered u n.
        path_exists h (path_join build_dir ''compile_commands.json'')
        \<and> print_line h (''Performing Cppcheck checks in directory: '' @ build_dir) = Inr ()
        \<and> which h ''cppcheck'' = Some cmd \<and> cmd \<noteq> []
        \<and> print_line h (''Found cppcheck: '' @ cmd) = Inr ()
        \<and> json_load h (path_join build_dir ''compile_commands.json'') = Inr doc
        \<and> filter_doc doc = Inr filtered
        \<and> file_write h (path_join build_dir ''compile_commands_cppcheck.json'')
              (json_dumps h filtered 2) = Inr u
        \<and> cpu_count h = Inr n
        \<longrightarrow> filter is_call (trace (cppcheck_main h (prog # build_dir # rest))) =
              [CheckCall [cmd, ''--project='' @ path_join build_dir ''compile_commands_cppcheck.json'',
                          ''--enable=warning'', ''--std=c++20'', ''-j'', str_nat n] False]"
    by (auto simp: main_tool_found persist_outcome invoke_outcome found_trace_def
          split: sum.splits)
qed

text \<open>On the example host, with eight processors.\<close>
theorem check_call_argument_vector_witness:
  "filter is_call (trace (cppcheck_main demo_host [''cppcheck.py'', ''build''])) =
     [CheckCall [''/usr/bin/cppcheck'', ''--project=build/compile_commands_cppcheck.json'',
                 ''--enable=warning'', ''--std=c++20'', ''-j'', ''8''] False]
   \<and> which demo_host ''cppcheck'' = Some ''/usr/bin/cppcheck''
   \<and> cpu_count demo_host = Inr 8
   \<and> dec_value ''8'' = 8"
proof -
  have reach: "path_exists demo_host (path_join ''build'' ''compile_commands.json'')
        \<and> print_line demo_host (''Performing Cppcheck checks in directory: '' @ ''build'') = Inr ()
        \<and> which demo_host ''cppcheck'' = Some ''/usr/bin/cppcheck'' \<and> ''/usr/bin/cppcheck'' \<noteq> []
        \<and> print_line demo_host (''Found cppcheck: '' @ ''/usr/bin/cppcheck'') = Inr ()
        \<and> json_load demo_host (path_join ''build'' ''compile_commands.json'') = Inr (JArr demo_entries)
        \<and> filter_doc (JArr demo_entries) = Inr (JArr demo_kept)
        \<and> file_write demo_host (path_join ''build'' ''compile_commands_cppcheck.json'')
              (json_dumps demo_host (JArr demo_kept) 2) = Inr ()
        \<and> cpu_count demo_host = Inr 8"
    by (simp add: demo_host_def demo_paths demo_filter_doc)
  from check_call_argument_vector [of demo_host "''cppcheck.py''" "''build''" "[]",
      THEN conjunct2, rule_format, OF reach]
  have calls: "filter is_call (trace (cppcheck_main demo_host [''cppcheck.py'', ''build''])) =
     [CheckCall [''/usr/bin/cppcheck'', ''--project=build/compile_commands_cppcheck.json'',
                 ''--enable=warning'', ''--std=c++20'', ''-j'', ''8''] False]"
    by (simp add: demo_paths str_nat_8)
  then have "CheckCall [''/usr/bin/cppcheck'', ''--project=build/compile_commands_cppcheck.json'',
                 ''--enable=warning'', ''--std=c++20'', ''-j'', ''8''] False
             \<in> set (filter is_call (trace (cppcheck_main demo_host [''cppcheck.py'', ''build''])))"
    by simp
  then have mem: "CheckCall [''/usr/bin/cppcheck'', ''--project=build/compile_commands_cppcheck.json'',
                 ''--enable=warning'', ''--std=c++20'', ''-j'', ''8''] False
             \<in> set (trace (cppcheck_main demo_host [''cppcheck.py'', ''build'']))"
    by simp
  from check_call_argument_vector [of demo_host "''cppcheck.py''" "''build''" "[]",
      THEN conjunct1, rule_format, OF mem]
  obtain n where "cpu_count demo_host = Inr n" and "''8'' = str_nat n" and "dec_value (str_nat n) = n"
    by auto
  moreover have "cpu_count demo_host = Inr 8" by (simp add: demo_host_def)
  ultimately have "dec_value ''8'' = 8" by simp
  with calls reach show ?thesis by simp
qed

lemma path_join_distinct:
  "path_join build_dir ''compile_commands_cppcheck.json'' \<noteq> path_join build_dir ''compile_commands.json''"
  by (simp add: path_join_def)

lemma path_join_same_dir:
  "\<exists>dir. path_join build_dir ''compile_commands.json'' = dir @ ''compile_commands.json''
       \<and> path_join build_dir ''compile_commands_cppcheck.json'' = dir @ ''compile_commands_cppcheck.json''"
proof (cases "build_dir = [] \<or> last build_dir = CHR ''/''")
  case True
  then show ?thesis by (intro exI [of _ build_dir]) (auto simp: path_join_def)
next
  case False
  then show ?thesis by (intro exI [of _ "build_dir @ ''/''"]) (simp add: path_join_def)
qed

text \<open>
  Claim C8. When both lines were printed and the database was loaded and
  filtered, the script writes one file: \<^verbatim>\<open>compile_commands_cppcheck.json\<close>
  joined to the build directory, with the text \<^verbatim>\<open>json.dumps\<close> returns for the
  filtered list and \<^verbatim>\<open>indent=2\<close>. It never writes another file or another
  text. The path written differs from the path read, and the two are in the
  same directory.
\<close>
theorem filtered_database_written:
  "(\<forall>cmd doc filtered.
        path_exists h (path_join build_dir ''compile_commands.json'')
        \<and> print_line h (''Performing Cppcheck checks in directory: '' @ build_dir) = Inr ()
        \<and> which h ''cppcheck'' = Some cmd \<and> cmd \<noteq> []
        \<and> print_line h (''Found cppcheck: '' @ cmd) = Inr ()
        \<and> json_load h (path_join build_dir ''compile_commands.json'') = Inr doc
        \<and> filter_doc doc = Inr filtered
        \<longrightarrow> filter is_write (trace (cppcheck_main h (prog # build_dir # rest))) =
              [WriteFile (path_join build_dir ''compile_commands_cppcheck.json'')
                 (json_dumps h filtered 2)])
   \<and> (\<forall>p s. WriteFile p s \<in> set (trace (cppcheck_main h (prog # build_dir # rest))) \<longrightarrow>
          p = path_join build_dir ''compile_commands_cppcheck.json''
          \<and> (\<exists>doc filtered. json_load h (path_join build_dir ''compile_commands.json'') = Inr doc
                \<and> filter_doc doc = Inr filtered \<and> s = json_dumps h filtered 2))
   \<and> path_join build_dir ''compile_commands_cppcheck.json''
        \<noteq> path_join build_dir ''compile_commands.json''
   \<and> (\<exists>dir. path_join build_dir ''compile_commands.json'' = dir @ ''compile_commands.json''
          \<and> path_join build_dir ''compile_commands_cppcheck.json''
              = dir @ ''compile_commands_cppcheck.json'')"
proof (intro conjI)
  show "\<forall>cmd doc filtered.
        path_exists h (path_join build_dir ''compile_commands.json'')
        \<and> print_line h (''Performing Cppcheck checks in directory: '' @ build_dir) = Inr ()
        \<and> which h ''cppcheck'' = Some cmd \<and> cmd \<noteq> []
        \<and> print_line h (''Found cppcheck: '' @ cmd) = Inr ()
        \<and> json_load h (path_join build_dir ''compile_commands.json'') = Inr doc
        \<and> filter_doc doc = Inr filtered
        \<longrightarrow> filter is_write (trace (cppcheck_main h (prog # build_dir # rest))) =
              [WriteFile (path_join build_dir ''compile_commands_cppcheck.json'')
                 (json_dumps h filtered 2)]"
    by (auto simp: main_tool_found persist_outcome invoke_outcome found_trace_def
          split: sum.splits)
next
  show "\<forall>p s. WriteFile p s \<in> set (trace (cppcheck_main h (prog # build_dir # rest))) \<longrightarrow>
          p = path_join build_dir ''compile_commands_cppcheck.json''
          \<and> (\<exists>doc filtered. json_load h (path_join build_dir ''compile_commands.json'') = Inr doc
                \<and> filter_doc doc = Inr filtered \<and> s = json_dumps h filtered 2)"
    using main_kinds [of h build_dir prog rest]
  proof (elim disjE exE conjE)
    fix cmd
    assume "cppcheck_main h (prog # build_dir # rest) =
          (case json_load h (path_join build_dir ''compile_commands.json'') of
             Inl e \<Rightarrow> uncaught h (found_trace build_dir cmd) e
           | Inr json_doc \<Rightarrow>
               (case filter_doc json_doc of
                  Inl e \<Rightarrow> uncaught h (found_trace build_dir cmd) e
                | Inr filtered \<Rightarrow> persist h (found_trace build_dir cmd) build_dir cmd filtered))"
    then show ?thesis
      by (auto simp: persist_outcome invoke_outcome found_trace_def split: sum.splits)
  qed auto
next
  show "path_join build_dir ''compile_commands_cppcheck.json''
        \<noteq> path_join build_dir ''compile_commands.json''"
    by (rule path_join_distinct)
next
  show "\<exists>dir. path_join build_dir ''compile_commands.json'' = dir @ ''compile_commands.json''
          \<and> path_join build_dir ''compile_commands_cppcheck.json''
              = dir @ ''compile_commands_cppcheck.json''"
    by (rule path_join_same_dir)
qed

text \<open>
  On the example host the text written is \<open>demo_text\<close>: every entry two
  spaces in, every field four.
\<close>
theorem filtered_database_written_witness:
  "filter is_write (trace (cppcheck_main demo_host [''cppcheck.py'', ''build''])) =
     [WriteFile ''build/compile_commands_cppcheck.json'' demo_text]
   \<and> json_load demo_host ''build/compile_commands.json'' = Inr (JArr demo_entries)
   \<and> filter_doc (JArr demo_entries) = Inr (JArr demo_kept)
   \<and> json_dumps demo_host (JArr demo_kept) 2 = demo_text"
proof -
  have reach: "path_exists demo_host (path_join ''build'' ''compile_commands.json'')
        \<and> print_line demo_host (''Performing Cppcheck checks in directory: '' @ ''build'') = Inr ()
        \<and> which demo_host ''cppcheck'' = Some ''/usr/bin/cppcheck'' \<and> ''/usr/bin/cppcheck'' \<noteq> []
        \<and> print_line demo_host (''Found cppcheck: '' @ ''/usr/bin/cppcheck'') = Inr ()
        \<and> json_load demo_host (path_join ''build'' ''compile_commands.json'') = Inr (JArr demo_entries)
        \<and> filter_doc (JArr demo_entries) = Inr (JArr demo_kept)"
    by (simp add: demo_host_def demo_paths demo_filter_doc)
  have d: "json_dumps demo_host (JArr demo_kept) 2 = demo_text"
    by (simp add: demo_host_def demo_encode)
  from filtered_database_written [of demo_host "''build''" "''cppcheck.py''" "[]",
      THEN conjunct1, rule_format, OF reach]
    reach d
  show ?thesis by (simp add: demo_paths)
qed

end
